theory Spec2Isabelle
  imports Complex_Main
begin

section \<open>Shared state of the research workflow\<close>

text \<open>
  The records follow \<^verbatim>\<open>src/research_multi_agent/state.py\<close>. Python's unbounded
  \<^verbatim>\<open>int\<close> is \<^typ>\<open>int\<close>; the relevance score is a number that the code only stores
  and never computes with, so it is a \<^typ>\<open>real\<close>. An exception is a value of
  \<open>py_error\<close> that carries the text \<^verbatim>\<open>str(e)\<close> gives.
\<close>

datatype py_error =
    ValueError string
  | AttributeError string
  | TypeError string
  | ZeroDivisionError string
  | ValidationError string
  | CollaboratorError string

fun str_error :: "py_error \<Rightarrow> string" where
  "str_error (ValueError m) = m"
| "str_error (AttributeError m) = m"
| "str_error (TypeError m) = m"
| "str_error (ZeroDivisionError m) = m"
| "str_error (ValidationError m) = m"
| "str_error (CollaboratorError m) = m"

record research_plan =
  main_topic :: string
  subtopics :: "string list"
  research_questions :: "string list"

record research_result =
  query :: string
  content :: string
  source :: string
  relevance_score :: real

datatype role = Human | AI | System | Tool

record message =
  role :: role
  msg_content :: string
  name :: "string option"

record state =
  messages :: "message list"
  research_plan :: "research_plan option"
  research_results :: "research_result list"
  research_iterations :: int
  max_research_iterations :: int
  final_report :: "string option"
  current_agent :: string

section \<open>Python strings and integers\<close>

text \<open>
  A Python \<^verbatim>\<open>str\<close> is a \<^typ>\<open>string\<close>, one \<^typ>\<open>char\<close> per character, so the
  texts of the model are those over the code points up to U+00FF.
  \<open>str_int\<close> is \<^verbatim>\<open>str(n)\<close> on an \<^verbatim>\<open>int\<close>, \<open>contains sub s\<close> is \<^verbatim>\<open>sub in s\<close>,
  \<open>lower\<close> is \<^verbatim>\<open>str.lower\<close>, \<open>strip\<close> is \<^verbatim>\<open>str.strip()\<close>, \<open>split_on\<close> is
  \<^verbatim>\<open>str.split(sep)\<close>, \<open>py_slice xs i j\<close> is \<^verbatim>\<open>xs[i:j]\<close> with Python's treatment of
  negative and out-of-range bounds.
\<close>

definition nl :: string where
  "nl = [CHR 0x0A]"

definition digit_char :: "nat \<Rightarrow> char" where
  "digit_char d = ''0123456789'' ! d"

function str_nat :: "nat \<Rightarrow> string" where
  "str_nat n = (if n < 10 then [digit_char n] else str_nat (n div 10) @ [digit_char (n mod 10)])"
  by pat_completeness auto
termination
  by (relation "measure (\<lambda>n. n)") auto

declare str_nat.simps [simp del]

definition str_int :: "int \<Rightarrow> string" where
  "str_int i = (if i < 0 then CHR ''-'' # str_nat (nat (- i)) else str_nat (nat i))"

fun starts_with :: "string \<Rightarrow> string \<Rightarrow> bool" where
  "starts_with [] s = True"
| "starts_with (p # ps) [] = False"
| "starts_with (p # ps) (c # cs) = (p = c \<and> starts_with ps cs)"

fun contains :: "string \<Rightarrow> string \<Rightarrow> bool" where
  "contains sub [] = (sub = [])"
| "contains sub (c # cs) = (starts_with sub (c # cs) \<or> contains sub cs)"

definition ends_with :: "string \<Rightarrow> string \<Rightarrow> bool" where
  "ends_with suffix s = starts_with (rev suffix) (rev s)"

definition lower_char :: "char \<Rightarrow> char" where
  "lower_char c =
     (let n = (of_char c :: nat)
      in if (65 \<le> n \<and> n \<le> 90) \<or> (192 \<le> n \<and> n \<le> 222 \<and> n \<noteq> 215)
         then char_of (n + 32) else c)"

definition lower :: "string \<Rightarrow> string" where
  "lower s = map lower_char s"

definition is_space :: "char \<Rightarrow> bool" where
  "is_space c = ((of_char c :: nat) \<in> {9, 10, 11, 12, 13, 28, 29, 30, 31, 32, 133, 160})"

definition lstrip_chars :: "char list \<Rightarrow> string \<Rightarrow> string" where
  "lstrip_chars cs s = dropWhile (\<lambda>c. c \<in> set cs) s"

definition strip :: "string \<Rightarrow> string" where
  "strip s = rev (dropWhile is_space (rev (dropWhile is_space s)))"

fun split_on :: "char \<Rightarrow> string \<Rightarrow> string list" where
  "split_on sep [] = [[]]"
| "split_on sep (c # cs) =
     (if c = sep then [] # split_on sep cs
      else (case split_on sep cs of
              [] \<Rightarrow> [[c]]
            | w # ws \<Rightarrow> (c # w) # ws))"

fun join :: "string \<Rightarrow> string list \<Rightarrow> string" where
  "join sep [] = []"
| "join sep [x] = x"
| "join sep (x # y # ys) = x @ sep @ join sep (y # ys)"

definition norm_index :: "nat \<Rightarrow> int \<Rightarrow> nat" where
  "norm_index n i = (if i < 0 then nat (max 0 (i + int n)) else min (nat i) n)"

definition py_slice :: "'a list \<Rightarrow> int \<Rightarrow> int \<Rightarrow> 'a list" where
  "py_slice xs i j =
     take (norm_index (length xs) j - norm_index (length xs) i)
          (drop (norm_index (length xs) i) xs)"

section \<open>Continuation policy\<close>

text \<open>
  \<^verbatim>\<open>_should_continue_research\<close> of \<^verbatim>\<open>agents/researcher.py\<close>. It reads the count of
  iterations as it was when the stage was entered and adds one itself. The attribute
  access on an absent plan and the floor division by zero are the two places where the
  Python raises.
\<close>

definition should_continue_research :: "state \<Rightarrow> research_result list \<Rightarrow> py_error + bool" where
  "should_continue_research st current_results =
     (if research_iterations st + 1 \<ge> max_research_iterations st then Inr False
      else case research_plan st of
        None \<Rightarrow> Inl (AttributeError ''NoneType object has no attribute subtopics'')
      | Some plan \<Rightarrow>
          (let min_results_needed = int (length (subtopics plan)) * 2 in
           if int (length current_results) < min_results_needed then Inr True
           else if research_iterations st + 1 = 0
             then Inl (ZeroDivisionError ''integer division or modulo by zero'')
           else
             (let results_per_iteration =
                    int (length current_results) div (research_iterations st + 1);
                  expected_coverage = results_per_iteration * (research_iterations st + 1)
              in if expected_coverage < int (length (subtopics plan)) then Inr True
                 else Inr False)))"

text \<open>
  \<^verbatim>\<open>_should_continue_research_decision\<close> of \<^verbatim>\<open>graph.py\<close>, the router of the
  conditional edge. It reads the merged state, whose count the stage has already
  incremented.
\<close>

definition should_continue_research_decision :: "state \<Rightarrow> string" where
  "should_continue_research_decision st =
     (if research_iterations st \<ge> max_research_iterations st then ''write''
      else case research_plan st of
        None \<Rightarrow> ''write''
      | Some plan \<Rightarrow>
          (let min_results_per_subtopic = 2;
               required_results = int (length (subtopics plan)) * min_results_per_subtopic;
               current_results = int (length (research_results st))
           in if current_results < required_results then ''continue''
              else if current_agent st = ''writer'' then ''write''
              else ''continue''))"

section \<open>Extraction of results from the agent's transcript\<close>

text \<open>
  The transcript the tool-using agent returns is a list of messages. The content of a
  message is a text or a list of content blocks; of a list the code only uses its length
  and its \<^verbatim>\<open>str(...)\<close> rendering, which \<open>Blocks\<close> carries. A message that has no
  \<^verbatim>\<open>tool_calls\<close> attribute has the empty list here, one that has no
  \<^verbatim>\<open>tool_call_id\<close> has \<open>None\<close>.
\<close>

datatype msg_body = Text string | Blocks nat string

fun str_body :: "msg_body \<Rightarrow> string" where
  "str_body (Text s) = s"
| "str_body (Blocks n rendering) = rendering"

record tool_call =
  tc_name :: string
  tc_query :: string
  tc_id :: "string option"

record agent_message =
  am_content :: msg_body
  tool_calls :: "tool_call list"
  tool_call_id :: "string option"

text \<open>
  The value \<^verbatim>\<open>json.loads\<close> returns. The decoder itself and the coercion that the
  result model applies to a score that is not a JSON number belong to libraries and are
  parameters: \<open>json_loads\<close> gives \<open>None\<close> for \<^verbatim>\<open>JSONDecodeError\<close>, \<open>float_lax\<close> gives
  \<open>None\<close> where the validation of the float field fails.
\<close>

datatype json =
    JNull
  | JBool bool
  | JNum real
  | JStr string
  | JArr "json list"
  | JObj "(string \<times> json) list"

record externals =
  json_loads :: "string \<Rightarrow> json option"
  float_lax :: "json \<Rightarrow> real option"

definition find_tool_result :: "agent_message list \<Rightarrow> string option \<Rightarrow> string" where
  "find_tool_result msgs call_id =
     (case filter (\<lambda>m. tool_call_id m \<noteq> None \<and> tool_call_id m = call_id) msgs of
        [] \<Rightarrow> []
      | m # _ \<Rightarrow> str_body (am_content m))"

text \<open>
  The constructor call \<^verbatim>\<open>ResearchResult(query=query, content=d.get('content',
  content)[:2000], source=d.get('url', 'Unknown source'), relevance_score=d.get('score',
  0.8))\<close> on a decoded value \<open>d\<close>: \<^verbatim>\<open>.get\<close> needs a dict, the slice needs a sequence,
  and the model validates that content and source are strings and the score a float.
\<close>

definition result_of_record :: "externals \<Rightarrow> string \<Rightarrow> string \<Rightarrow> json \<Rightarrow> py_error + research_result" where
  "result_of_record ext q raw d =
     (case d of
        JObj kvs \<Rightarrow>
          (case (case map_of kvs ''content'' of
                   None \<Rightarrow> Inr (take 2000 raw)
                 | Some (JStr s) \<Rightarrow> Inr (take 2000 s)
                 | Some (JArr xs) \<Rightarrow> Inl (ValidationError ''content: Input should be a valid string'')
                 | Some _ \<Rightarrow> Inl (TypeError ''object is not subscriptable'')) of
             Inl e \<Rightarrow> Inl e
           | Inr c \<Rightarrow>
              (case (case map_of kvs ''url'' of
                       None \<Rightarrow> Some ''Unknown source''
                     | Some (JStr s) \<Rightarrow> Some s
                     | Some _ \<Rightarrow> None) of
                 None \<Rightarrow> Inl (ValidationError ''source: Input should be a valid string'')
               | Some src \<Rightarrow>
                  (case (case map_of kvs ''score'' of
                           None \<Rightarrow> Some 0.8
                         | Some (JNum x) \<Rightarrow> Some x
                         | Some v \<Rightarrow> float_lax ext v) of
                     None \<Rightarrow> Inl (ValidationError ''relevance_score: Input should be a valid number'')
                   | Some sc \<Rightarrow>
                       Inr \<lparr>query = q, content = c, source = src, relevance_score = sc\<rparr>)))
      | _ \<Rightarrow> Inl (AttributeError ''object has no attribute get''))"

text \<open>
  \<^verbatim>\<open>_create_research_result\<close>: the body of its \<^verbatim>\<open>try\<close> first, then the function with
  its catch-all handler. The payload is always a \<^verbatim>\<open>str\<close> here, since
  \<^verbatim>\<open>_find_tool_result\<close> returns one.
\<close>

definition create_research_result_try :: "externals \<Rightarrow> string \<Rightarrow> string \<Rightarrow> py_error + research_result" where
  "create_research_result_try ext q raw =
     (let fallback = Inr \<lparr>query = q, content = take 2000 raw, source = ''Web search result'',
                           relevance_score = 0.8\<rparr>
      in case json_loads ext raw of
           None \<Rightarrow> fallback
         | Some (JArr (first_result # rest)) \<Rightarrow> result_of_record ext q raw first_result
         | Some (JObj kvs) \<Rightarrow> result_of_record ext q raw (JObj kvs)
         | Some _ \<Rightarrow> fallback)"

definition create_research_result :: "externals \<Rightarrow> string \<Rightarrow> string \<Rightarrow> research_result" where
  "create_research_result ext q raw =
     (case create_research_result_try ext q raw of
        Inr r \<Rightarrow> r
      | Inl e \<Rightarrow> \<lparr>query = q, content = ''Research result for: '' @ q,
                   source = ''Research agent'', relevance_score = 0.5\<rparr>)"

text \<open>
  \<^verbatim>\<open>_extract_from_content\<close>. It is handed the content itself, not its rendering: a
  list of more than 100 blocks is sliced to a list, which the result model rejects.
\<close>

definition extract_from_content :: "msg_body \<Rightarrow> string \<Rightarrow> py_error + research_result list" where
  "extract_from_content body topic =
     (case body of
        Text s \<Rightarrow>
          (if length s > 100
           then Inr [\<lparr>query = ''Research on '' @ topic, content = take 2000 s,
                      source = ''Research agent analysis'', relevance_score = 0.7\<rparr>]
           else Inr [])
      | Blocks n rendering \<Rightarrow>
          (if n > 100 then Inl (ValidationError ''content: Input should be a valid string'')
           else Inr []))"

text \<open>
  \<^verbatim>\<open>_extract_research_results_from_response\<close>. \<open>tool_call_results\<close> is the inner loop
  over the tool calls of one message; \<open>extract_loop\<close> is the loop over the messages,
  which returns the results gathered so far together with the exception that ended it,
  if one did; the function itself then appends the fallback result of its handler. The
  response is the list under the key \<^verbatim>\<open>messages\<close>.
\<close>

definition tool_call_results :: "externals \<Rightarrow> agent_message list \<Rightarrow> tool_call list \<Rightarrow> research_result list" where
  "tool_call_results ext msgs calls =
     concat (map (\<lambda>tc.
       if tc_name tc = ''tavily_search'' \<and> tc_query tc \<noteq> []
       then (let result_content = find_tool_result msgs (tc_id tc)
             in if result_content \<noteq> []
                then [create_research_result ext (tc_query tc) result_content] else [])
       else []) calls)"

fun extract_loop :: "externals \<Rightarrow> agent_message list \<Rightarrow> string \<Rightarrow> agent_message list \<Rightarrow>
    research_result list \<Rightarrow> py_error option \<times> research_result list" where
  "extract_loop ext msgs topic [] results = (None, results)"
| "extract_loop ext msgs topic (m # rest) results =
     (if contains ''tavily_search'' (str_body (am_content m))
      then (case extract_from_content (am_content m) topic of
              Inl e \<Rightarrow> (Some e, results @ tool_call_results ext msgs (tool_calls m))
            | Inr extracted \<Rightarrow>
                extract_loop ext msgs topic rest
                  (results @ tool_call_results ext msgs (tool_calls m) @ extracted))
      else extract_loop ext msgs topic rest
             (results @ tool_call_results ext msgs (tool_calls m)))"

definition extract_research_results_from_response :: "externals \<Rightarrow> agent_message list \<Rightarrow> string \<Rightarrow> research_result list" where
  "extract_research_results_from_response ext response topic =
     (case extract_loop ext response topic response [] of
        (None, results) \<Rightarrow> results
      | (Some e, results) \<Rightarrow>
          results @
          [\<lparr>query = ''Research on '' @ topic,
            content = take 1000 (if response \<noteq> [] then str_body (am_content (last response))
                                 else ''Research completed''),
            source = ''Generated from research agent'',
            relevance_score = 0.8\<rparr>])"

section \<open>Research stage\<close>

text \<open>
  What a node returns is a partial update of the state: a key that is absent is \<open>None\<close>.
  The graph library merges it into the state: \<^verbatim>\<open>messages\<close> has the appending reducer
  of \<^verbatim>\<open>MessagesState\<close>, every other key is overwritten.
\<close>

record delta =
  d_messages :: "message list"
  d_research_plan :: "research_plan option"
  d_research_results :: "research_result list option"
  d_research_iterations :: "int option"
  d_final_report :: "string option"
  d_current_agent :: "string option"

definition apply_delta :: "state \<Rightarrow> delta \<Rightarrow> state" where
  "apply_delta st d =
     \<lparr>messages = messages st @ d_messages d,
      research_plan = (case d_research_plan d of None \<Rightarrow> research_plan st | Some p \<Rightarrow> Some p),
      research_results = (case d_research_results d of None \<Rightarrow> research_results st | Some rs \<Rightarrow> rs),
      research_iterations = (case d_research_iterations d of None \<Rightarrow> research_iterations st | Some i \<Rightarrow> i),
      max_research_iterations = max_research_iterations st,
      final_report = (case d_final_report d of None \<Rightarrow> final_report st | Some r \<Rightarrow> Some r),
      current_agent = (case d_current_agent d of None \<Rightarrow> current_agent st | Some a \<Rightarrow> a)\<rparr>"

definition ai_message :: "string \<Rightarrow> string \<Rightarrow> message" where
  "ai_message author text = \<lparr>role = AI, msg_content = text, name = Some author\<rparr>"

text \<open>
  \<^verbatim>\<open>_create_research_instructions\<close>: the focus slice of the iteration, and the text
  built from it. The floor division by the budget raises when the budget is zero.
\<close>

definition research_focus :: "state \<Rightarrow> research_plan \<Rightarrow> py_error + string list \<times> string list" where
  "research_focus st plan =
     (let iteration = research_iterations st + 1 in
      if iteration = 1 then
        Inr (if length (subtopics plan) > 3 then take 3 (subtopics plan) else subtopics plan,
             if length (research_questions plan) > 5 then take 5 (research_questions plan)
             else research_questions plan)
      else if max_research_iterations st = 0
        then Inl (ZeroDivisionError ''integer division or modulo by zero'')
      else
        (let subtopics_per_iteration =
               max 2 (int (length (subtopics plan)) div max_research_iterations st);
             start_idx = (iteration - 1) * subtopics_per_iteration;
             focus_areas = py_slice (subtopics plan) start_idx (start_idx + subtopics_per_iteration);
             questions_per_iteration =
               max 3 (int (length (research_questions plan)) div max_research_iterations st);
             start_idx2 = (iteration - 1) * questions_per_iteration;
             focus_questions =
               py_slice (research_questions plan) start_idx2 (start_idx2 + questions_per_iteration)
         in Inr (focus_areas, focus_questions)))"

definition create_research_instructions :: "state \<Rightarrow> research_plan \<Rightarrow> py_error + string" where
  "create_research_instructions st plan =
     (case research_focus st plan of
        Inl e \<Rightarrow> Inl e
      | Inr (focus_areas, focus_questions) \<Rightarrow>
          Inr (nl @ ''Research Plan Execution - Iteration '' @ str_int (research_iterations st + 1)
               @ nl @ nl @ ''Main Topic: '' @ main_topic plan
               @ nl @ nl @ ''Focus Areas for This Iteration:'' @ nl
               @ join nl (map (\<lambda>area. ''- '' @ area) focus_areas)
               @ nl @ nl @ ''Key Questions to Research:'' @ nl
               @ join nl (map (\<lambda>question. ''- '' @ question) focus_questions)
               @ nl @ nl @ ''Current Progress: '' @ str_nat (length (research_results st))
               @ '' research results already gathered.''
               @ nl @ nl @ ''Instructions:'' @ nl
               @ ''1. Use the tavily_search tool to research each focus area systematically'' @ nl
               @ ''2. Search for recent, authoritative information'' @ nl
               @ ''3. Gather comprehensive information that answers the key questions'' @ nl
               @ ''4. Focus on factual, well-documented information from credible sources'' @ nl
               @ ''5. Note any conflicting viewpoints or perspectives''
               @ nl @ nl @ ''Please begin researching these focus areas now.'' @ nl))"

text \<open>
  The collaborators of the Research stage are outside the program; what they do in one
  invocation is given: \<open>r_model_and_tools\<close> is the outcome of getting the chat model and
  preparing the tools (an exception, or whether the list of tools is non-empty),
  \<open>r_prompt_and_agent\<close> an exception raised while loading the system prompt or
  creating the agent, \<open>r_ainvoke\<close> the outcome of running the agent on the instructions.
\<close>

record research_env =
  r_model_and_tools :: "py_error + bool"
  r_prompt_and_agent :: "py_error option"
  r_ainvoke :: "py_error + agent_message list"

text \<open>
  \<^verbatim>\<open>call_research_agent\<close>: the body of the \<^verbatim>\<open>try\<close>, in which every
  \<^verbatim>\<open>raise\<close> and every exception of a callee is \<open>Inl\<close>, and then the node with its
  handler. \<open>research_skip_delta\<close> is the dict returned when the budget is already used
  up at entry, \<open>run_research_agent\<close> the calls from getting the model to running the
  agent, \<open>research_done_delta\<close> the messages and the dict returned at the end of the
  \<^verbatim>\<open>try\<close>. The stand-in object handed to the two helpers has the fields of the state
  it was built from, with the results replaced before the policy is asked.
\<close>

definition research_skip_delta :: "state \<Rightarrow> delta" where
  "research_skip_delta st =
     \<lparr>d_messages =
        [ai_message ''researcher''
           (''Research completed. Maximum iterations (''
            @ str_int (max_research_iterations st) @ '') reached. ''
            @ ''Gathered '' @ str_nat (length (research_results st)) @ '' research results.'')],
      d_research_plan = None,
      d_research_results = None,
      d_research_iterations = Some (research_iterations st),
      d_final_report = None,
      d_current_agent = Some ''writer''\<rparr>"

definition run_research_agent :: "research_env \<Rightarrow> state \<Rightarrow> research_plan \<Rightarrow> py_error + agent_message list" where
  "run_research_agent env st plan =
     (case r_model_and_tools env of
        Inl e \<Rightarrow> Inl e
      | Inr tools \<Rightarrow>
          if \<not> tools then Inl (ValueError ''No research tools available'')
          else
            (case r_prompt_and_agent env of
               Some e \<Rightarrow> Inl e
             | None \<Rightarrow>
                (case create_research_instructions st plan of
                   Inl e \<Rightarrow> Inl e
                 | Inr research_instructions \<Rightarrow> r_ainvoke env)))"

definition research_done_delta :: "state \<Rightarrow> research_plan \<Rightarrow> research_result list \<Rightarrow>
    research_result list \<Rightarrow> bool \<Rightarrow> delta" where
  "research_done_delta st plan new_results all_results should_continue =
     (let research_message =
            ai_message ''researcher''
              (''Research iteration '' @ str_int (research_iterations st + 1) @ '' completed. ''
               @ ''Found '' @ str_nat (length new_results) @ '' new results. ''
               @ ''Total results: '' @ str_nat (length all_results));
          next_agent = (if should_continue then ''researcher'' else ''writer'')
      in \<lparr>d_messages =
             (if \<not> should_continue then
                [research_message,
                 ai_message ''researcher''
                   (''Research phase completed. Gathered '' @ str_nat (length all_results)
                    @ '' total research results across '' @ str_nat (length (subtopics plan))
                    @ '' subtopics. Ready for report writing.'')]
              else [research_message]),
           d_research_plan = None,
           d_research_results = Some all_results,
           d_research_iterations = Some (research_iterations st + 1),
           d_final_report = None,
           d_current_agent = Some next_agent\<rparr>)"

definition research_try :: "externals \<Rightarrow> research_env \<Rightarrow> state \<Rightarrow> py_error + delta" where
  "research_try ext env st =
     (case research_plan st of
        None \<Rightarrow> Inl (ValueError ''No research plan available for research execution'')
      | Some plan \<Rightarrow>
          if research_iterations st \<ge> max_research_iterations st
          then Inr (research_skip_delta st)
          else
            (case run_research_agent env st plan of
               Inl e \<Rightarrow> Inl e
             | Inr research_response \<Rightarrow>
                 (case should_continue_research
                         (st\<lparr>research_results :=
                               research_results st
                               @ extract_research_results_from_response ext research_response
                                   (main_topic plan)\<rparr>)
                         (research_results st
                          @ extract_research_results_from_response ext research_response
                              (main_topic plan)) of
                    Inl e \<Rightarrow> Inl e
                  | Inr should_continue \<Rightarrow>
                      Inr (research_done_delta st plan
                             (extract_research_results_from_response ext research_response
                                (main_topic plan))
                             (research_results st
                              @ extract_research_results_from_response ext research_response
                                  (main_topic plan))
                             should_continue))))"

definition call_research_agent :: "externals \<Rightarrow> research_env \<Rightarrow> state \<Rightarrow> delta" where
  "call_research_agent ext env st =
     (case research_try ext env st of
        Inr d \<Rightarrow> d
      | Inl e \<Rightarrow>
          \<lparr>d_messages = [ai_message ''researcher'' (''Error during research: '' @ str_error e)],
           d_research_plan = None,
           d_research_results = Some (research_results st),
           d_research_iterations = Some (research_iterations st + 1),
           d_final_report = None,
           d_current_agent = Some ''writer''\<rparr>)"

section \<open>Plan stage\<close>

text \<open>
  The three extractors of \<^verbatim>\<open>agents/planner.py\<close>. Each \<^verbatim>\<open>for\<close> loop over the lines is
  a recursion over the list of lines, with the flag and the list the loop updates as
  arguments; \<^verbatim>\<open>continue\<close> is the recursive call and \<^verbatim>\<open>break\<close> returns. The set
  of characters that \<^verbatim>\<open>lstrip\<close> removes is the source's, without the bullet U+2022,
  which no text of the model contains.
\<close>

definition after_first_colon :: "string \<Rightarrow> string" where
  "after_first_colon line = tl (dropWhile (\<lambda>c. c \<noteq> CHR '':'') line)"

fun extract_main_topic_lines :: "string list \<Rightarrow> string \<Rightarrow> string" where
  "extract_main_topic_lines [] fallback = fallback"
| "extract_main_topic_lines (line # rest) fallback =
     (if (contains ''main topic'' (lower line) \<or> contains ''topic:'' (lower line))
         \<and> CHR '':'' \<in> set line \<and> strip (after_first_colon line) \<noteq> []
      then strip (after_first_colon line)
      else extract_main_topic_lines rest fallback)"

definition extract_main_topic :: "string \<Rightarrow> string \<Rightarrow> string" where
  "extract_main_topic text fallback =
     extract_main_topic_lines (split_on (CHR 0x0A) text) fallback"

definition bullet_chars :: "char list" where
  "bullet_chars = ''- *123456789. ''"

fun subtopics_loop :: "string list \<Rightarrow> bool \<Rightarrow> string list \<Rightarrow> string list" where
  "subtopics_loop [] in_subtopics_section found = found"
| "subtopics_loop (raw # rest) in_subtopics_section found =
     (if contains ''subtopic'' (lower (strip raw)) \<and> CHR '':'' \<in> set (strip raw)
        then subtopics_loop rest True found
      else if in_subtopics_section \<and> strip raw \<noteq> [] \<and> ends_with '':'' (strip raw)
              \<and> contains ''question'' (lower (strip raw))
        then found
      else if in_subtopics_section \<and> strip raw \<noteq> []
              \<and> strip (lstrip_chars bullet_chars (strip raw)) \<noteq> []
              \<and> length (strip (lstrip_chars bullet_chars (strip raw))) > 3
        then subtopics_loop rest in_subtopics_section
               (found @ [strip (lstrip_chars bullet_chars (strip raw))])
      else subtopics_loop rest in_subtopics_section found)"

definition extract_subtopics :: "string \<Rightarrow> string list" where
  "extract_subtopics text =
     (let found = subtopics_loop (split_on (CHR 0x0A) text) False []
      in take 7 (if found = [] then [''General research topic''] else found))"

definition ensure_question_mark :: "string \<Rightarrow> string" where
  "ensure_question_mark cleaned = (if \<not> ends_with ''?'' cleaned then cleaned @ ''?'' else cleaned)"

fun questions_loop :: "string list \<Rightarrow> bool \<Rightarrow> string list \<Rightarrow> string list" where
  "questions_loop [] in_questions_section found = found"
| "questions_loop (raw # rest) in_questions_section found =
     (if contains ''question'' (lower (strip raw)) \<and> CHR '':'' \<in> set (strip raw)
        then questions_loop rest True found
      else if in_questions_section \<and> strip raw \<noteq> [] \<and> ends_with '':'' (strip raw)
              \<and> \<not> contains ''question'' (lower (strip raw))
        then found
      else if in_questions_section \<and> strip raw \<noteq> []
              \<and> strip (lstrip_chars bullet_chars (strip raw)) \<noteq> []
              \<and> length (strip (lstrip_chars bullet_chars (strip raw))) > 10
        then questions_loop rest in_questions_section
               (found @ [ensure_question_mark (strip (lstrip_chars bullet_chars (strip raw)))])
      else questions_loop rest in_questions_section found)"

definition extract_research_questions :: "string \<Rightarrow> string list" where
  "extract_research_questions text =
     (let found = questions_loop (split_on (CHR 0x0A) text) False []
      in take 10 (if found = [] then [''What are the key aspects of this topic?''] else found))"

text \<open>
  The collaborators of the Plan stage in one invocation: \<open>p_setup\<close> is an exception
  raised while getting the chat model, preparing the tools or loading the system
  prompt, \<open>p_ainvoke\<close> the outcome of the model call, whose reply has a content.
\<close>

record planner_env =
  p_setup :: "py_error option"
  p_ainvoke :: "py_error + msg_body"

text \<open>
  The inner \<^verbatim>\<open>try\<close> of \<^verbatim>\<open>call_planner_agent\<close>: the extractors call
  \<^verbatim>\<open>content.split\<close>, which a list of content blocks does not have; its handler builds a
  plan from the last user message.
\<close>

definition parse_plan :: "msg_body \<Rightarrow> string \<Rightarrow> py_error + research_plan" where
  "parse_plan plan_content last_user_message =
     (case plan_content of
        Text s \<Rightarrow>
          Inr \<lparr>main_topic = extract_main_topic s last_user_message,
               subtopics = extract_subtopics s,
               research_questions = extract_research_questions s\<rparr>
      | Blocks n rendering \<Rightarrow> Inl (AttributeError ''list object has no attribute split''))"

definition planner_try :: "planner_env \<Rightarrow> state \<Rightarrow> py_error + delta" where
  "planner_try env st =
     (let user_messages = filter (\<lambda>msg. role msg = Human) (messages st) in
      if user_messages = [] then Inl (ValueError ''No user message found for research planning'')
      else
        (let last_user_message = msg_content (last user_messages) in
         case p_setup env of
           Some e \<Rightarrow> Inl e
         | None \<Rightarrow>
            (case p_ainvoke env of
               Inl e \<Rightarrow> Inl e
             | Inr plan_content \<Rightarrow>
                 Inr \<lparr>d_messages =
                        [ai_message ''planner''
                           (''Research plan created:'' @ nl @ nl @ str_body plan_content)],
                      d_research_plan =
                        Some (case parse_plan plan_content last_user_message of
                                Inr plan \<Rightarrow> plan
                              | Inl e \<Rightarrow>
                                  \<lparr>main_topic = last_user_message,
                                   subtopics = [''Research aspect of: '' @ last_user_message],
                                   research_questions =
                                     [''What information is available about: ''
                                      @ last_user_message @ ''?'']\<rparr>),
                      d_research_results = None,
                      d_research_iterations = None,
                      d_final_report = None,
                      d_current_agent = Some ''researcher''\<rparr>)))"

text \<open>
  \<^verbatim>\<open>call_planner_agent\<close> with its outer handler, which takes the query from
  \<^verbatim>\<open>messages[-1]\<close>, the last message of the state whatever its role.
\<close>

definition call_planner_agent :: "planner_env \<Rightarrow> state \<Rightarrow> delta" where
  "call_planner_agent env st =
     (case planner_try env st of
        Inr d \<Rightarrow> d
      | Inl e \<Rightarrow>
          (let user_query = (if messages st \<noteq> [] then msg_content (last (messages st))
                             else ''Unknown query'')
           in \<lparr>d_messages =
                  [ai_message ''planner'' (''Error creating research plan: '' @ str_error e)],
                d_research_plan =
                  Some \<lparr>main_topic = user_query,
                        subtopics = [''General research on: '' @ user_query],
                        research_questions =
                          [''What information is available about: '' @ user_query @ ''?'']\<rparr>,
                d_research_results = None,
                d_research_iterations = None,
                d_final_report = None,
                d_current_agent = Some ''researcher''\<rparr>))"

section \<open>Write stage\<close>

text \<open>
  \<^verbatim>\<open>_enhance_report_formatting\<close>. The date comes from the clock and is a parameter.
  \<open>sources_loop\<close> is the loop over \<^verbatim>\<open>enumerate(research_results, 1)\<close> with the set of
  sources seen and the text of the section as it grows.
\<close>

fun sources_loop :: "nat \<Rightarrow> research_result list \<Rightarrow> string set \<Rightarrow> string \<Rightarrow> string" where
  "sources_loop i [] unique_sources sources_section = sources_section"
| "sources_loop i (result # rest) unique_sources sources_section =
     (if source result \<notin> unique_sources \<and> source result \<noteq> ''Unknown source''
      then sources_loop (i + 1) rest (insert (source result) unique_sources)
             (sources_section @ str_nat i @ ''. '' @ source result @ nl)
      else sources_loop (i + 1) rest unique_sources sources_section)"

definition report_metadata :: "string \<Rightarrow> state \<Rightarrow> string" where
  "report_metadata today st =
     ''# Research Report'' @ nl @ nl
     @ ''**Topic:** ''
     @ (case research_plan st of None \<Rightarrow> ''Unknown Topic'' | Some plan \<Rightarrow> main_topic plan) @ nl
     @ ''**Research Date:** '' @ today @ nl
     @ ''**Sources Consulted:** '' @ str_nat (length (research_results st))
     @ '' research sources'' @ nl
     @ ''**Research Iterations:** '' @ str_int (research_iterations st) @ nl
     @ nl @ ''---'' @ nl @ nl"

definition sources_appendix :: "string \<Rightarrow> state \<Rightarrow> string" where
  "sources_appendix report st =
     (if research_results st \<noteq> [] \<and> \<not> contains ''sources:'' (lower report)
      then sources_loop 1 (research_results st) {} (nl @ nl @ ''## Sources'' @ nl @ nl)
      else [])"

definition enhance_report_formatting :: "string \<Rightarrow> string \<Rightarrow> state \<Rightarrow> string" where
  "enhance_report_formatting today report st =
     report_metadata today st @ (report @ sources_appendix report st)"

text \<open>
  \<^verbatim>\<open>_create_fallback_report\<close>, the report that the handler of the Write stage
  assembles from the state and the text of the exception.
\<close>

fun findings_loop :: "nat \<Rightarrow> research_result list \<Rightarrow> string" where
  "findings_loop i [] = []"
| "findings_loop i (result # rest) =
     nl @ str_nat i @ ''. **'' @ query result @ ''**'' @ nl
     @ ''   - '' @ take 200 (content result) @ ''...'' @ nl
     @ ''   - Source: '' @ source result @ nl
     @ findings_loop (i + 1) rest"

definition create_fallback_report :: "state \<Rightarrow> string \<Rightarrow> string" where
  "create_fallback_report st error_msg =
     (let user_messages = filter (\<lambda>msg. role msg = Human) (messages st);
          original_query = (if user_messages \<noteq> [] then msg_content (hd user_messages)
                            else ''Unknown query'');
          topic = (case research_plan st of None \<Rightarrow> original_query
                   | Some plan \<Rightarrow> main_topic plan)
      in ''# Research Report - Summary'' @ nl @ nl
         @ ''**Topic:** '' @ topic @ nl
         @ ''**Status:** Partial report due to processing error'' @ nl @ nl
         @ ''## Summary'' @ nl @ nl
         @ ''This is a summary report generated after encountering an error during full report generation.''
         @ nl @ nl
         @ ''**Original Query:** '' @ original_query @ nl @ nl
         @ (case research_plan st of
              None \<Rightarrow> []
            | Some plan \<Rightarrow>
                ''## Research Plan'' @ nl @ nl
                @ ''**Main Topic:** '' @ main_topic plan @ nl @ nl
                @ ''**Subtopics Investigated:**'' @ nl
                @ join nl (map (\<lambda>subtopic. ''- '' @ subtopic) (subtopics plan)) @ nl @ nl
                @ ''**Key Research Questions:**'' @ nl
                @ join nl (map (\<lambda>question. ''- '' @ question) (take 5 (research_questions plan)))
                @ nl @ nl)
         @ (if research_results st \<noteq> [] then
              ''## Research Findings Summary'' @ nl @ nl
              @ ''**Total Sources Consulted:** '' @ str_nat (length (research_results st)) @ nl
              @ ''**Research Iterations Completed:** '' @ str_int (research_iterations st) @ nl @ nl
              @ ''**Key Findings:**'' @ nl
              @ findings_loop 1 (take 3 (research_results st))
            else [])
         @ nl @ ''## Note'' @ nl @ nl
         @ ''This report was generated in summary mode due to a processing error: '' @ error_msg
         @ nl @ nl
         @ ''For a complete analysis, please retry the research request.'' @ nl)"

text \<open>
  The collaborators of the Write stage in one invocation: \<open>w_setup\<close> is an exception
  raised while getting the model, the tools or the system prompt, \<open>w_ainvoke\<close> the
  outcome of the model call, \<open>w_today\<close> the date the clock gives. The research summary
  that \<^verbatim>\<open>_prepare_research_summary\<close> builds is part of the prompt only; it raises
  nothing on a state of this type and is not modelled.
\<close>

record writer_env =
  w_setup :: "py_error option"
  w_ainvoke :: "py_error + msg_body"
  w_today :: string

definition writer_try :: "writer_env \<Rightarrow> state \<Rightarrow> py_error + delta" where
  "writer_try env st =
     (let user_messages = filter (\<lambda>msg. role msg = Human) (messages st) in
      if user_messages = [] then Inl (ValueError ''No user query found for report writing'')
      else
        (let original_query = msg_content (hd user_messages) in
         if research_plan st = None
           then Inl (ValueError ''No research plan available for report writing'')
         else
           (case w_setup env of
              Some e \<Rightarrow> Inl e
            | None \<Rightarrow>
               (case w_ainvoke env of
                  Inl e \<Rightarrow> Inl e
                | Inr (Blocks n rendering) \<Rightarrow>
                    Inl (if research_results st \<noteq> []
                         then AttributeError ''list object has no attribute lower''
                         else TypeError ''can only concatenate str (not list) to str'')
                | Inr (Text report_text) \<Rightarrow>
                    (let enhanced_report =
                           enhance_report_formatting (w_today env) report_text st
                     in Inr \<lparr>d_messages =
                               [ai_message ''writer''
                                  (''Research report completed for: '' @ original_query
                                   @ nl @ nl @ enhanced_report)],
                             d_research_plan = None,
                             d_research_results = None,
                             d_research_iterations = None,
                             d_final_report = Some enhanced_report,
                             d_current_agent = Some ''completed''\<rparr>)))))"

definition call_writer_agent :: "writer_env \<Rightarrow> state \<Rightarrow> delta" where
  "call_writer_agent env st =
     (case writer_try env st of
        Inr d \<Rightarrow> d
      | Inl e \<Rightarrow>
          (let fallback_report = create_fallback_report st (str_error e)
           in \<lparr>d_messages =
                  [ai_message ''writer''
                     (''Report generation encountered an error, but a summary report was created:''
                      @ nl @ nl @ fallback_report)],
                d_research_plan = None,
                d_research_results = None,
                d_research_iterations = None,
                d_final_report = Some fallback_report,
                d_current_agent = Some ''completed''\<rparr>))"

section \<open>The two workflow graphs\<close>

text \<open>
  A graph is the list of the \<^verbatim>\<open>add_edge\<close> and \<^verbatim>\<open>add_conditional_edges\<close> calls of
  its constructor in \<^verbatim>\<open>graph.py\<close>. A conditional edge has the router and the table
  from the router's answers to nodes.
\<close>

datatype node = START | Planner | Researcher | Writer | END

datatype edge =
    Edge node node
  | ConditionalEdges node "state \<Rightarrow> string" "(string \<times> node) list"

definition research_multi_agent_graph :: "edge list" where
  "research_multi_agent_graph =
     [Edge START Planner,
      Edge Planner Researcher,
      Edge Researcher Writer,
      Edge Writer END]"

definition research_multi_agent_graph_with_loops :: "edge list" where
  "research_multi_agent_graph_with_loops =
     [Edge START Planner,
      Edge Planner Researcher,
      ConditionalEdges Researcher should_continue_research_decision
        [(''continue'', Researcher), (''write'', Writer)],
      Edge Writer END]"

fun next_node :: "edge list \<Rightarrow> node \<Rightarrow> state \<Rightarrow> node option" where
  "next_node [] n st = None"
| "next_node (Edge a b # es) n st = (if a = n then Some b else next_node es n st)"
| "next_node (ConditionalEdges a path path_map # es) n st =
     (if a = n then map_of path_map (path st) else next_node es n st)"

text \<open>
  The collaborators' outcomes are given for each invocation of a node, counted from 0
  over the run. \<open>run_from\<close> executes the graph from a node: it invokes the node, merges
  what the node returns into the state, and follows the edge. The fuel bounds the number
  of steps; \<open>None\<close> is a run that has not ended within it, \<open>Some (Inl e)\<close> a run that
  stopped at a node without a successor, \<open>Some (Inr (st, trace))\<close> a run that reached
  \<open>END\<close> with the final state and the nodes invoked, in order.
\<close>

record collaborators =
  planner_env :: planner_env
  research_env :: research_env
  writer_env :: writer_env

definition empty_delta :: delta where
  "empty_delta = \<lparr>d_messages = [], d_research_plan = None, d_research_results = None,
     d_research_iterations = None, d_final_report = None, d_current_agent = None\<rparr>"

definition invoke :: "externals \<Rightarrow> collaborators \<Rightarrow> node \<Rightarrow> state \<Rightarrow> delta" where
  "invoke ext c n st =
     (case n of
        Planner \<Rightarrow> call_planner_agent (planner_env c) st
      | Researcher \<Rightarrow> call_research_agent ext (research_env c) st
      | Writer \<Rightarrow> call_writer_agent (writer_env c) st
      | _ \<Rightarrow> empty_delta)"

fun run_from :: "edge list \<Rightarrow> externals \<Rightarrow> (nat \<Rightarrow> collaborators) \<Rightarrow> nat \<Rightarrow> node \<Rightarrow> state \<Rightarrow>
    node list \<Rightarrow> (py_error + state \<times> node list) option" where
  "run_from g ext env 0 n st trace = None"
| "run_from g ext env (Suc fuel) n st trace =
     (if n = END then Some (Inr (st, trace))
      else if n = START then
        (case next_node g START st of
           None \<Rightarrow> Some (Inl (ValueError ''no edge from START''))
         | Some n' \<Rightarrow> run_from g ext env fuel n' st trace)
      else
        (case next_node g n (apply_delta st (invoke ext (env (length trace)) n st)) of
           None \<Rightarrow> Some (Inl (ValueError ''no edge from node''))
         | Some n' \<Rightarrow>
             run_from g ext env fuel n'
               (apply_delta st (invoke ext (env (length trace)) n st)) (trace @ [n])))"

definition run :: "edge list \<Rightarrow> externals \<Rightarrow> (nat \<Rightarrow> collaborators) \<Rightarrow> nat \<Rightarrow> state \<Rightarrow>
    (py_error + state \<times> node list) option" where
  "run g ext env fuel st = run_from g ext env fuel START st []"

text \<open>
  A text has a section line for a keyword when one of its lines, stripped, contains the
  keyword in lower case and a colon: the test with which the two extractors enter their
  section.
\<close>

definition has_section_line :: "string \<Rightarrow> string \<Rightarrow> bool" where
  "has_section_line keyword text =
     list_ex (\<lambda>raw. contains keyword (lower (strip raw)) \<and> CHR '':'' \<in> set (strip raw))
       (split_on (CHR 0x0A) text)"

text \<open>
  The score that a payload carries: the value under the key \<^verbatim>\<open>score\<close> of the decoded
  object, or of the first element of the decoded list, as a number.
\<close>

definition score_of :: "externals \<Rightarrow> (string \<times> json) list \<Rightarrow> real option" where
  "score_of ext kvs =
     (case map_of kvs ''score'' of
        None \<Rightarrow> None
      | Some (JNum x) \<Rightarrow> Some x
      | Some v \<Rightarrow> float_lax ext v)"

definition payload_score :: "externals \<Rightarrow> string \<Rightarrow> real option" where
  "payload_score ext raw =
     (case json_loads ext raw of
        Some (JObj kvs) \<Rightarrow> score_of ext kvs
      | Some (JArr (JObj kvs # rest)) \<Rightarrow> score_of ext kvs
      | _ \<Rightarrow> None)"

definition analysis_result :: "string \<Rightarrow> string \<Rightarrow> research_result" where
  "analysis_result topic s =
     \<lparr>query = ''Research on '' @ topic, content = take 2000 s,
      source = ''Research agent analysis'', relevance_score = 0.7\<rparr>"

section \<open>Concrete inputs\<close>

definition no_json :: externals where
  "no_json = \<lparr>json_loads = (\<lambda>raw. None), float_lax = (\<lambda>v. None)\<rparr>"

definition one_topic_plan :: research_plan where
  "one_topic_plan = \<lparr>main_topic = ''t'', subtopics = [''one topic''], research_questions = []\<rparr>"

definition sample_result :: research_result where
  "sample_result = \<lparr>query = ''q'', content = ''c'', source = ''s'', relevance_score = 0.8\<rparr>"

definition third_iteration_state :: state where
  "third_iteration_state = \<lparr>messages = [], research_plan = Some one_topic_plan, research_results = [],
     research_iterations = 2, max_research_iterations = 5, final_report = None,
     current_agent = ''researcher''\<rparr>"

definition budget_used_state :: state where
  "budget_used_state = third_iteration_state\<lparr>research_iterations := 5\<rparr>"

definition no_plan_state :: state where
  "no_plan_state = third_iteration_state\<lparr>research_plan := None\<rparr>"

definition idle_research_env :: research_env where
  "idle_research_env = \<lparr>r_model_and_tools = Inr True, r_prompt_and_agent = None,
     r_ainvoke = Inr []\<rparr>"

definition idle_collaborators :: collaborators where
  "idle_collaborators =
     \<lparr>planner_env = \<lparr>p_setup = None, p_ainvoke = Inr (Text [])\<rparr>,
      research_env = idle_research_env,
      writer_env = \<lparr>w_setup = None, w_ainvoke = Inr (Text []), w_today = ''2025-01-01''\<rparr>\<rparr>"

definition zero_budget_state :: state where
  "zero_budget_state =
     \<lparr>messages = [\<lparr>role = Human, msg_content = ''quantum computing trends'', name = None\<rparr>],
      research_plan = None, research_results = [], research_iterations = 0,
      max_research_iterations = 0, final_report = None, current_agent = ''planner''\<rparr>"

definition plain_text :: string where
  "plain_text = ''quantum computing overview''"

definition answered_state :: state where
  "answered_state =
     \<lparr>messages = [\<lparr>role = Human, msg_content = ''quantum computing trends'', name = None\<rparr>,
                  \<lparr>role = AI, msg_content = ''Earlier answer'', name = None\<rparr>],
      research_plan = None, research_results = [], research_iterations = 0,
      max_research_iterations = 5, final_report = None, current_agent = ''planner''\<rparr>"

definition failing_planner_env :: planner_env where
  "failing_planner_env =
     \<lparr>p_setup = None, p_ainvoke = Inl (CollaboratorError ''model unavailable'')\<rparr>"

definition search_message :: agent_message where
  "search_message =
     \<lparr>am_content = Text (''tavily_search '' @ replicate 100 (CHR ''x'')),
      tool_calls = [\<lparr>tc_name = ''tavily_search'', tc_query = ''qubits'', tc_id = Some ''call_1''\<rparr>],
      tool_call_id = None\<rparr>"

definition tool_message :: agent_message where
  "tool_message =
     \<lparr>am_content = Text ''raw result'', tool_calls = [], tool_call_id = Some ''call_1''\<rparr>"

definition scored_payload :: string where
  \<open>scored_payload = ''{"content": "X", "score": 7}''\<close>

definition scoring_decoder :: externals where
  "scoring_decoder =
     \<lparr>json_loads = (\<lambda>raw. if raw = scored_payload
                        then Some (JObj [(''content'', JStr ''X''), (''score'', JNum 7)])
                        else if raw = ''[1]'' then Some (JArr [JNum 1])
                        else None),
      float_lax = (\<lambda>v. None)\<rparr>"

section \<open>Rule 4 of the continuation policy\<close>

text \<open>
  C3 (as stated, refuted). Third iteration of five, one subtopic, two results: rule 3 does
  not fire (2 is not below 2), and rule 4 computes 2 // 3 = 0, 0 * 3 = 0 < 1, so the
  policy answers continue although the claim promises advance.
\<close>

theorem c3_rule4_counterexample:
  "research_iterations third_iteration_state + 1 < max_research_iterations third_iteration_state
   \<and> subtopics one_topic_plan \<noteq> []
   \<and> 2 * length (subtopics one_topic_plan) \<le> length [sample_result, sample_result]
   \<and> should_continue_research third_iteration_state [sample_result, sample_result] = Inr True"
  by (simp add: should_continue_research_def third_iteration_state_def one_topic_plan_def)

text \<open>
  C3 (amended). With the updated count \<open>k = research_iterations + 1\<close> below the budget
  and not zero, a plan with \<open>s\<close> subtopics and \<open>r \<ge> 2 * s\<close> results, the policy inside the
  Research stage returns advance exactly when \<open>(r div k) * k \<ge> s\<close>, and continue
  otherwise: the floor division makes rule 4 differ from rule 3.
\<close>

theorem c3_rule4_amended:
  assumes "research_plan st = Some plan"
    and "research_iterations st + 1 < max_research_iterations st"
    and "research_iterations st + 1 \<noteq> 0"
    and "2 * length (subtopics plan) \<le> length rs"
  shows "should_continue_research st rs =
           Inr (int (length rs) div (research_iterations st + 1) * (research_iterations st + 1)
                  < int (length (subtopics plan)))"
  using assms by (simp add: should_continue_research_def Let_def)

theorem c3_rule4_amended_witness:
  "research_plan third_iteration_state = Some one_topic_plan
   \<and> research_iterations third_iteration_state + 1 < max_research_iterations third_iteration_state
   \<and> research_iterations third_iteration_state + 1 \<noteq> 0
   \<and> 2 * length (subtopics one_topic_plan) \<le> length [sample_result, sample_result, sample_result]
   \<and> should_continue_research third_iteration_state [sample_result, sample_result, sample_result] = Inr False"
  using c3_rule4_amended [of third_iteration_state one_topic_plan "[sample_result, sample_result, sample_result]"]
  by (simp add: third_iteration_state_def one_topic_plan_def)

section \<open>The Research stage and its router\<close>

lemma router_cong:
  assumes "research_iterations a = research_iterations b"
    and "max_research_iterations a = max_research_iterations b"
    and "research_plan a = research_plan b"
    and "research_results a = research_results b"
    and "current_agent a = current_agent b"
  shows "should_continue_research_decision a = should_continue_research_decision b"
  using assms by (simp add: should_continue_research_decision_def Let_def split: option.splits)

lemma policy_router_agree:
  assumes "should_continue_research (st\<lparr>research_results := rs\<rparr>) rs = Inr b"
  shows "should_continue_research_decision
           (st\<lparr>research_results := rs, research_iterations := research_iterations st + 1,
               current_agent := (if b then ''researcher'' else ''writer'')\<rparr>)
         = (if b then ''continue'' else ''write'')"
proof (cases "max_research_iterations st \<le> research_iterations st + 1")
  case True
  then show ?thesis using assms
    by (simp add: should_continue_research_def should_continue_research_decision_def)
next
  case False
  show ?thesis
  proof (cases "research_plan st")
    case None
    then show ?thesis using assms False
      by (simp add: should_continue_research_def)
  next
    case (Some plan)
    then show ?thesis using assms False
      by (simp add: should_continue_research_def should_continue_research_decision_def Let_def
            split: if_splits)
  qed
qed

lemma research_done_delta_fields:
  "d_research_results (research_done_delta st plan new all b) = Some all"
  "d_research_iterations (research_done_delta st plan new all b) = Some (research_iterations st + 1)"
  "d_current_agent (research_done_delta st plan new all b) = Some (if b then ''researcher'' else ''writer'')"
  "d_research_plan (research_done_delta st plan new all b) = None"
  "d_final_report (research_done_delta st plan new all b) = None"
  by (simp_all add: research_done_delta_def Let_def)

lemma research_skip_delta_fields:
  "d_research_results (research_skip_delta st) = None"
  "d_research_iterations (research_skip_delta st) = Some (research_iterations st)"
  "d_current_agent (research_skip_delta st) = Some ''writer''"
  "d_research_plan (research_skip_delta st) = None"
  "d_final_report (research_skip_delta st) = None"
  by (simp_all add: research_skip_delta_def)

lemma research_try_cases:
  assumes "research_try ext env st = Inr d"
  obtains (skipped) plan where "research_plan st = Some plan"
      "max_research_iterations st \<le> research_iterations st" "d = research_skip_delta st"
  | (ran) plan response b where "research_plan st = Some plan"
      "research_iterations st < max_research_iterations st"
      "run_research_agent env st plan = Inr response"
      "should_continue_research
         (st\<lparr>research_results := research_results st
              @ extract_research_results_from_response ext response (main_topic plan)\<rparr>)
         (research_results st @ extract_research_results_from_response ext response (main_topic plan))
       = Inr b"
      "d = research_done_delta st plan
             (extract_research_results_from_response ext response (main_topic plan))
             (research_results st @ extract_research_results_from_response ext response (main_topic plan))
             b"
  using assms
  by (auto simp: research_try_def split: option.splits sum.splits if_splits)

lemma research_iterations_after:
  "d_research_iterations (call_research_agent ext env st) =
     Some (if research_plan st \<noteq> None \<and> research_iterations st \<ge> max_research_iterations st
           then research_iterations st else research_iterations st + 1)"
proof (cases "research_try ext env st")
  case (Inl e)
  then have "\<not> (research_plan st \<noteq> None \<and> research_iterations st \<ge> max_research_iterations st)"
    by (auto simp: research_try_def split: option.splits)
  with Inl show ?thesis by (simp add: call_research_agent_def)
next
  case (Inr d)
  then show ?thesis
    by (cases rule: research_try_cases)
       (simp_all add: call_research_agent_def Inr research_done_delta_fields research_skip_delta_fields)
qed

text \<open>
  C4 (as stated, refuted). A state with a plan whose count has reached the budget takes
  the skip path, and the delta carries the count unchanged: 5, not 6.
\<close>

theorem c4_skip_path_counterexample:
  "research_plan budget_used_state \<noteq> None
   \<and> research_iterations budget_used_state \<ge> max_research_iterations budget_used_state
   \<and> d_research_iterations (call_research_agent no_json idle_research_env budget_used_state) = Some 5
   \<and> research_iterations budget_used_state + 1 = 6"
  by (simp add: call_research_agent_def research_try_def research_skip_delta_def
        budget_used_state_def third_iteration_state_def)

text \<open>
  C4 (amended). One invocation of the Research stage returns a delta whose
  \<open>research_iterations\<close> is the input count plus one on the successful path and on
  every path through the handler (an exception of a collaborator, no tools, no plan); on
  the skip path, taken when a plan is present and the count has reached the budget at
  entry, it is the input count unchanged.
\<close>

theorem c4_iteration_counter:
  "d_research_iterations (call_research_agent ext env st) =
     Some (if research_plan st \<noteq> None \<and> research_iterations st \<ge> max_research_iterations st
           then research_iterations st else research_iterations st + 1)"
  by (rule research_iterations_after)

theorem c4_iteration_counter_witness:
  "d_research_iterations (call_research_agent no_json idle_research_env third_iteration_state) = Some 3"
  using c4_iteration_counter [of no_json idle_research_env third_iteration_state]
  by (simp add: third_iteration_state_def)



section \<open>Runs of the two graphs\<close>

lemma router_values:
  "should_continue_research_decision st = ''continue'' \<or> should_continue_research_decision st = ''write''"
  by (auto simp: should_continue_research_decision_def Let_def split: option.splits)

lemma router_continue:
  "should_continue_research_decision st = ''continue'' \<Longrightarrow> research_iterations st < max_research_iterations st"
  by (auto simp: should_continue_research_decision_def Let_def split: option.splits if_splits)

lemma next_node_default [simp]:
  "next_node research_multi_agent_graph START st = Some Planner"
  "next_node research_multi_agent_graph Planner st = Some Researcher"
  "next_node research_multi_agent_graph Researcher st = Some Writer"
  "next_node research_multi_agent_graph Writer st = Some END"
  by (simp_all add: research_multi_agent_graph_def)

lemma next_node_loops [simp]:
  "next_node research_multi_agent_graph_with_loops START st = Some Planner"
  "next_node research_multi_agent_graph_with_loops Planner st = Some Researcher"
  "next_node research_multi_agent_graph_with_loops Writer st = Some END"
  "next_node research_multi_agent_graph_with_loops Researcher st =
     (if should_continue_research_decision st = ''continue'' then Some Researcher else Some Writer)"
  using router_values [of st]
  by (auto simp: research_multi_agent_graph_with_loops_def)

lemma writer_completes:
  "d_current_agent (call_writer_agent env st) = Some ''completed''"
  "d_final_report (call_writer_agent env st) \<noteq> None"
  "d_research_iterations (call_writer_agent env st) = None"
  by (auto simp: call_writer_agent_def writer_try_def Let_def
           split: sum.splits option.splits msg_body.splits if_splits)

lemma planner_delta:
  "d_research_iterations (call_planner_agent env st) = None"
  "d_research_plan (call_planner_agent env st) \<noteq> None"
  "d_current_agent (call_planner_agent env st) = Some ''researcher''"
  by (auto simp: call_planner_agent_def planner_try_def Let_def
           split: sum.splits option.splits if_splits)


lemma researcher_step:
  "max_research_iterations (apply_delta st (invoke ext c Researcher st)) = max_research_iterations st"
  "research_iterations (apply_delta st (invoke ext c Researcher st)) =
     (if research_plan st \<noteq> None \<and> research_iterations st \<ge> max_research_iterations st
      then research_iterations st else research_iterations st + 1)"
  by (simp_all add: apply_delta_def invoke_def research_iterations_after)

lemma planner_step:
  "max_research_iterations (apply_delta st (invoke ext c Planner st)) = max_research_iterations st"
  "research_iterations (apply_delta st (invoke ext c Planner st)) = research_iterations st"
  by (simp_all add: apply_delta_def invoke_def planner_delta)

lemma writer_step:
  "current_agent (apply_delta st (invoke ext c Writer st)) = ''completed''"
  "final_report (apply_delta st (invoke ext c Writer st)) \<noteq> None"
  using writer_completes(2) [of "writer_env c" st]
  by (auto simp: apply_delta_def invoke_def writer_completes(1))

lemma run_from_more_fuel:
  "run_from g ext env fuel n st trace = Some r \<Longrightarrow>
   run_from g ext env (fuel + extra) n st trace = Some r"
proof (induction fuel arbitrary: n st trace)
  case 0
  then show ?case by simp
next
  case (Suc fuel)
  then show ?case
    by (auto split: option.splits if_splits)
qed

lemma run_from_writer:
  "run_from research_multi_agent_graph_with_loops ext env (Suc (Suc fuel)) Writer st trace =
     Some (Inr (apply_delta st (invoke ext (env (length trace)) Writer st), trace @ [Writer]))"
  by simp

lemma run_from_researcher:
  "run_from research_multi_agent_graph_with_loops ext env (Suc fuel) Researcher st trace =
     run_from research_multi_agent_graph_with_loops ext env fuel
       (if should_continue_research_decision
             (apply_delta st (invoke ext (env (length trace)) Researcher st)) = ''continue''
        then Researcher else Writer)
       (apply_delta st (invoke ext (env (length trace)) Researcher st)) (trace @ [Researcher])"
  by simp

lemma research_loop_terminates:
  "nat (max_research_iterations st - research_iterations st) \<le> k \<Longrightarrow>
   \<exists>m final.
     run_from research_multi_agent_graph_with_loops ext env (m + 2) Researcher st trace
       = Some (Inr (final, trace @ replicate m Researcher @ [Writer]))
     \<and> 1 \<le> m \<and> m \<le> max 1 k
     \<and> current_agent final = ''completed'' \<and> final_report final \<noteq> None"
proof (induction k arbitrary: st trace)
  case 0
  let ?st' = "apply_delta st (invoke ext (env (length trace)) Researcher st)"
  from 0 have "max_research_iterations ?st' \<le> research_iterations ?st'"
    by (simp add: researcher_step)
  then have w: "should_continue_research_decision ?st' \<noteq> ''continue''"
    using router_continue [of ?st'] by auto
  have "run_from research_multi_agent_graph_with_loops ext env (1 + 2) Researcher st trace
          = Some (Inr (apply_delta ?st' (invoke ext (env (length (trace @ [Researcher]))) Writer ?st'),
                       trace @ replicate 1 Researcher @ [Writer]))"
    using w by (simp add: numeral_3_eq_3 del: run_from.simps add: run_from_researcher run_from_writer)
  then show ?case using writer_step by (intro exI [of _ 1] exI) auto
next
  case (Suc k)
  let ?st' = "apply_delta st (invoke ext (env (length trace)) Researcher st)"
  show ?case
  proof (cases "should_continue_research_decision ?st' = ''continue''")
    case False
    have "run_from research_multi_agent_graph_with_loops ext env (1 + 2) Researcher st trace
          = Some (Inr (apply_delta ?st' (invoke ext (env (length (trace @ [Researcher]))) Writer ?st'),
                       trace @ replicate 1 Researcher @ [Writer]))"
      using False by (simp add: numeral_3_eq_3 del: run_from.simps add: run_from_researcher run_from_writer)
    then show ?thesis using writer_step by (intro exI [of _ 1] exI) auto
  next
    case True
    then have lt: "research_iterations ?st' < max_research_iterations ?st'"
      by (rule router_continue)
    then have step: "research_iterations ?st' = research_iterations st + 1"
      by (auto simp: researcher_step split: if_splits)
    have mx: "max_research_iterations ?st' = max_research_iterations st"
      by (simp add: researcher_step)
    from lt step mx Suc.prems have k: "nat (max_research_iterations ?st' - research_iterations ?st') \<le> k"
      and k1: "1 \<le> k"
      by auto
    from Suc.IH [OF k, of "trace @ [Researcher]"] obtain m final where
      r: "run_from research_multi_agent_graph_with_loops ext env (m + 2) Researcher ?st'
            (trace @ [Researcher])
          = Some (Inr (final, (trace @ [Researcher]) @ replicate m Researcher @ [Writer]))"
      and m: "1 \<le> m" "m \<le> max 1 k"
      and f: "current_agent final = ''completed''" "final_report final \<noteq> None"
      by blast
    have "run_from research_multi_agent_graph_with_loops ext env (Suc m + 2) Researcher st trace
          = Some (Inr (final, trace @ replicate (Suc m) Researcher @ [Writer]))"
      using True r by (simp del: run_from.simps add: run_from_researcher replicate_app_Cons_same)
    then show ?thesis using m f k1 by (intro exI [of _ "Suc m"] exI [of _ final]) auto
  qed
qed
lemma run_loops_start:
  "run research_multi_agent_graph_with_loops ext env (Suc (Suc fuel)) st =
     run_from research_multi_agent_graph_with_loops ext env fuel Researcher
       (apply_delta st (invoke ext (env 0) Planner st)) [Planner]"
  by (simp add: run_def)

lemma run_default:
  "run research_multi_agent_graph ext env (Suc (Suc (Suc (Suc (Suc extra))))) st =
     Some (Inr (apply_delta
                  (apply_delta (apply_delta st (invoke ext (env 0) Planner st))
                     (invoke ext (env 1) Researcher (apply_delta st (invoke ext (env 0) Planner st))))
                  (invoke ext (env 2) Writer
                     (apply_delta (apply_delta st (invoke ext (env 0) Planner st))
                        (invoke ext (env 1) Researcher
                           (apply_delta st (invoke ext (env 0) Planner st))))),
                [Planner, Researcher, Writer]))"
  by (simp add: run_def numeral_2_eq_2)





section \<open>The extractors and the handler of the Plan stage\<close>

lemma subtopics_loop_outside:
  "\<not> list_ex (\<lambda>raw. contains ''subtopic'' (lower (strip raw)) \<and> CHR '':'' \<in> set (strip raw)) lines
   \<Longrightarrow> subtopics_loop lines False found = found"
  by (induction lines) auto

lemma questions_loop_outside:
  "\<not> list_ex (\<lambda>raw. contains ''question'' (lower (strip raw)) \<and> CHR '':'' \<in> set (strip raw)) lines
   \<Longrightarrow> questions_loop lines False found = found"
  by (induction lines) auto

lemma extract_subtopics_without_section:
  "\<not> has_section_line ''subtopic'' text \<Longrightarrow> extract_subtopics text = [''General research topic'']"
  by (simp add: has_section_line_def extract_subtopics_def subtopics_loop_outside)

lemma extract_questions_without_section:
  "\<not> has_section_line ''question'' text \<Longrightarrow>
   extract_research_questions text = [''What are the key aspects of this topic?'']"
  by (simp add: has_section_line_def extract_research_questions_def questions_loop_outside)

lemma plain_text_no_colon: "CHR '':'' \<notin> set plain_text"
  by (simp add: plain_text_def)

lemma strip_subset: "set (strip s) \<subseteq> set s"
proof -
  have "set (dropWhile is_space (rev (dropWhile is_space s))) \<subseteq> set (rev (dropWhile is_space s))"
    by (rule set_dropWhileD [THEN subsetI])
  also have "\<dots> \<subseteq> set s"
    using set_dropWhileD [of _ is_space s] by auto
  finally show ?thesis by (simp add: strip_def)
qed

lemma split_on_subset: "w \<in> set (split_on sep s) \<Longrightarrow> set w \<subseteq> set s"
proof (induction s arbitrary: w)
  case Nil
  then show ?case by simp
next
  case (Cons c cs)
  show ?case
  proof (cases "c = sep")
    case True
    with Cons show ?thesis by auto
  next
    case False
    obtain v vs where sp: "split_on sep cs = v # vs"
      by (cases "split_on sep cs") (cases cs, auto split: if_splits list.splits)
    with Cons.prems False have "w = c # v \<or> w \<in> set vs" by simp
    then show ?thesis
    proof
      assume "w = c # v"
      moreover have "set v \<subseteq> set cs" using Cons.IH [of v] sp by simp
      ultimately show ?thesis by auto
    next
      assume "w \<in> set vs"
      then have "set w \<subseteq> set cs" using Cons.IH [of w] sp by simp
      then show ?thesis by auto
    qed
  qed
qed

lemma no_colon_no_section: "CHR '':'' \<notin> set text \<Longrightarrow> \<not> has_section_line keyword text"
  using split_on_subset strip_subset
  by (fastforce simp: has_section_line_def list_ex_iff)

text \<open>
  C6 (as stated, refuted). A text without any colon has no section line, and
  \<^verbatim>\<open>_extract_subtopics\<close> returns the single-item fallback itself, not the empty
  list.
\<close>

theorem c6_extractor_fallback_counterexample:
  "\<not> has_section_line ''subtopic'' plain_text
   \<and> extract_subtopics plain_text = [''General research topic'']
   \<and> extract_subtopics plain_text \<noteq> []"
  using no_colon_no_section [OF plain_text_no_colon]
  by (simp add: extract_subtopics_without_section)

text \<open>
  C6 (amended). For every text in which the keyword never appears on a line together
  with a colon, \<^verbatim>\<open>_extract_subtopics\<close> returns the one-item list
  \<open>General research topic\<close> and \<^verbatim>\<open>_extract_research_questions\<close> returns the one-item
  list \<open>What are the key aspects of this topic?\<close>: the fallback is applied inside the
  extractor, which never returns the empty list there.
\<close>

theorem c6_fallback_inside_extractor:
  "(\<not> has_section_line ''subtopic'' text \<longrightarrow>
      extract_subtopics text = [''General research topic''])
   \<and> (\<not> has_section_line ''question'' text \<longrightarrow>
      extract_research_questions text = [''What are the key aspects of this topic?''])"
  by (simp add: extract_subtopics_without_section extract_questions_without_section)

theorem c6_fallback_inside_extractor_witness:
  "\<not> has_section_line ''subtopic'' plain_text
   \<and> extract_subtopics plain_text = [''General research topic'']
   \<and> \<not> has_section_line ''question'' plain_text
   \<and> extract_research_questions plain_text = [''What are the key aspects of this topic?'']"
  using c6_fallback_inside_extractor [of plain_text] no_colon_no_section [OF plain_text_no_colon]
  by simp

text \<open>
  C5 (the code at the failing input). The state holds a user message followed by an
  assistant message, and the model call raises. The handler of the Plan stage builds
  the fallback plan from the last message of the state, the assistant's, and not from
  the last user message; it does set \<open>current_agent\<close> to researcher.
\<close>

theorem c5_handler_uses_last_message:
  "msg_content (last (filter (\<lambda>msg. role msg = Human) (messages answered_state)))
     = ''quantum computing trends''
   \<and> d_research_plan (call_planner_agent failing_planner_env answered_state)
     = Some \<lparr>main_topic = ''Earlier answer'',
             subtopics = [''General research on: Earlier answer''],
             research_questions = [''What information is available about: Earlier answer?'']\<rparr>
   \<and> d_current_agent (call_planner_agent failing_planner_env answered_state) = Some ''researcher''"
  by (simp add: call_planner_agent_def planner_try_def answered_state_def failing_planner_env_def
        Let_def)

end
